theory Spec2Isabelle
  imports Main "HOL-Library.Word"
begin

section \<open>The module registry and lifecycle manager of game-kj\<close>

text \<open>
  This theory embeds \<^verbatim>\<open>internal/core/module/module.go\<close>: the package-level slice
  \<^verbatim>\<open>moduleInstance\<close>, the function \<^verbatim>\<open>RegisterModule\<close>, the constructor
  \<^verbatim>\<open>CreateModuleMgr\<close> and the three methods \<^verbatim>\<open>Init\<close>, \<^verbatim>\<open>Start\<close> and \<^verbatim>\<open>Stop\<close> of
  \<^verbatim>\<open>moduleMgr\<close>, together with the one function of the log package that the module
  package and the shipped module call (\<^verbatim>\<open>log.Info\<close>) and the shipped module
  \<^verbatim>\<open>ModelDemo\<close> of \<^verbatim>\<open>internal/modules/demo/model_demo.go\<close>.
\<close>

subsection \<open>Errors\<close>

text \<open>
  A Go \<^verbatim>\<open>error\<close> is an interface value; \<^verbatim>\<open>nil\<close> is \<open>None\<close> and a non-nil error
  carries its message.
\<close>

datatype error = Error string

subsection \<open>The log package as its callers see it\<close>

text \<open>
  \<^verbatim>\<open>log.String(key, value)\<close> builds a field. \<^verbatim>\<open>log.Info(msg, fields...)\<close> returns at
  once when the global \<^verbatim>\<open>logger\<close> is nil and calls \<^verbatim>\<open>logger.Info(msg, fields...)\<close> of
  the zap library otherwise. What zap does with an entry it is handed (which of its
  cores admit the level, where they write) is outside the repository: the model
  keeps the entries handed to the zap logger, in order, and a non-nil logger is an
  opaque handle.
\<close>

datatype Field = String string string

datatype Level = DebugLevel | InfoLevel | WarnLevel | ErrorLevel | FatalLevel

datatype entry = Entry Level string "Field list"

datatype zapLogger = ZapLogger

text \<open>
  The part of the process that module code can reach: the global logger of the log
  package (\<open>None\<close> is nil), the entries handed to it so far, and the state \<open>'w\<close> that
  the modules own (their data, the resources they open).
\<close>

record 'w penv =
  logger :: "zapLogger option"
  handed :: "entry list"
  mstate :: 'w

definition Info :: "string \<Rightarrow> Field list \<Rightarrow> 'w penv \<Rightarrow> 'w penv" where
  "Info msg fs e =
     (case logger e of
        None \<Rightarrow> e
      | Some l \<Rightarrow> e\<lparr>handed := handed e @ [Entry InfoLevel msg fs]\<rparr>)"

subsection \<open>The Module interface\<close>

text \<open>
  The interface \<^verbatim>\<open>Module\<close>. An implementation is code of another package: each
  lifecycle method is a transformer of the environment (it may log, as the methods
  of \<^verbatim>\<open>ModelDemo\<close> do, and change the state of the modules) and returns a Go error.
  \<^verbatim>\<open>Name()\<close> is an accessor returning the module's identifier. The interface value
  of a record is taken to be non-nil and its methods to return normally; module code
  cannot reach the unexported fields of a record, and it is taken not to register
  modules from inside a lifecycle method (the registry is filled by \<^verbatim>\<open>init()\<close>
  functions, before \<^verbatim>\<open>main\<close> runs).
\<close>

record 'w Module =
  Name :: string
  Init :: "'w penv \<Rightarrow> error option \<times> 'w penv"
  Start :: "'w penv \<Rightarrow> error option \<times> 'w penv"
  Stop :: "'w penv \<Rightarrow> error option \<times> 'w penv"
  LoadCfg :: "bool \<Rightarrow> 'w penv \<Rightarrow> error option \<times> 'w penv"

subsection \<open>ModuleState and moduleInfo\<close>

text \<open>\<^verbatim>\<open>type ModuleState uint8\<close> and its five constants.\<close>

type_synonym ModuleState = "8 word"

definition ModuleStateRegistered :: ModuleState where
  "ModuleStateRegistered = 0"

definition ModuleStateInitialized :: ModuleState where
  "ModuleStateInitialized = 1"

definition ModuleStateCfgLoaded :: ModuleState where
  "ModuleStateCfgLoaded = 2"

definition ModuleStateStarted :: ModuleState where
  "ModuleStateStarted = 3"

definition ModuleStateStopped :: ModuleState where
  "ModuleStateStopped = 4"

text \<open>
  The struct \<^verbatim>\<open>moduleInfo\<close>: the embedded interface value and the three unexported
  fields. No arithmetic is done on \<^verbatim>\<open>weight\<close>, so the Go \<^verbatim>\<open>int\<close> is an \<open>int\<close>.
\<close>

record 'w moduleInfo =
  Module :: "'w Module"
  state :: ModuleState
  isDisabled :: bool
  weight :: int

subsection \<open>The process state\<close>

text \<open>
  The slice \<^verbatim>\<open>moduleInstance\<close> holds pointers to \<^verbatim>\<open>moduleInfo\<close> values and the map of
  a \<^verbatim>\<open>moduleMgr\<close> holds the same pointers, so the records live in a store indexed by
  address. A Go pointer obtained from \<^verbatim>\<open>&moduleInfo{...}\<close> always points to a record,
  so the store is total and \<open>next_addr\<close> is the next address the allocator hands out.
  \<open>env\<close> is the environment that module code and the log package act on.
  \<open>calls\<close> is the history of the interface methods invoked on registered records, in
  the order of invocation; the program does not read it.
\<close>

type_synonym addr = nat

datatype call =
  CName addr
  | CInit addr
  | CLoadCfg addr bool
  | CStart addr
  | CStop addr

record 'w world =
  store :: "addr \<Rightarrow> 'w moduleInfo"
  next_addr :: addr
  moduleInstance :: "addr list"
  calls :: "call list"
  env :: "'w penv"

text \<open>\<^verbatim>\<open>type moduleMgr struct { modules map[string]*moduleInfo }\<close>\<close>

record moduleMgr =
  modules :: "string \<rightharpoonup> addr"

subsection \<open>Invoking an interface method through a record pointer\<close>

text \<open>
  \<^verbatim>\<open>module.Name()\<close>, \<^verbatim>\<open>module.Init()\<close>, ... on a \<^verbatim>\<open>*moduleInfo\<close> dispatch to the
  embedded interface value. Each returns what the method returns, together with the
  state after the call.
\<close>

definition call_Name :: "addr \<Rightarrow> 'w world \<Rightarrow> string \<times> 'w world" where
  "call_Name p s = (Name (Module (store s p)), s\<lparr>calls := calls s @ [CName p]\<rparr>)"

definition call_Init :: "addr \<Rightarrow> 'w world \<Rightarrow> error option \<times> 'w world" where
  "call_Init p s =
     (let (r, e) = Init (Module (store s p)) (env s)
      in (r, s\<lparr>calls := calls s @ [CInit p], env := e\<rparr>))"

definition call_LoadCfg :: "addr \<Rightarrow> bool \<Rightarrow> 'w world \<Rightarrow> error option \<times> 'w world" where
  "call_LoadCfg p isReload s =
     (let (r, e) = LoadCfg (Module (store s p)) isReload (env s)
      in (r, s\<lparr>calls := calls s @ [CLoadCfg p isReload], env := e\<rparr>))"

definition call_Start :: "addr \<Rightarrow> 'w world \<Rightarrow> error option \<times> 'w world" where
  "call_Start p s =
     (let (r, e) = Start (Module (store s p)) (env s)
      in (r, s\<lparr>calls := calls s @ [CStart p], env := e\<rparr>))"

definition call_Stop :: "addr \<Rightarrow> 'w world \<Rightarrow> error option \<times> 'w world" where
  "call_Stop p s =
     (let (r, e) = Stop (Module (store s p)) (env s)
      in (r, s\<lparr>calls := calls s @ [CStop p], env := e\<rparr>))"

subsection \<open>RegisterModule\<close>

text \<open>
  Allocates a \<^verbatim>\<open>moduleInfo\<close> with the two fields the composite literal names (the
  others get Go's zero values) and appends its pointer to \<^verbatim>\<open>moduleInstance\<close>.
\<close>

definition RegisterModule :: "'w Module \<Rightarrow> 'w world \<Rightarrow> 'w world" where
  "RegisterModule md s =
     (let p = next_addr s;
          info = \<lparr>Module = md, state = ModuleStateRegistered, isDisabled = False, weight = 0\<rparr>
      in s\<lparr>store := (store s)(p := info),
           next_addr := Suc p,
           moduleInstance := moduleInstance s @ [p]\<rparr>)"

subsection \<open>CreateModuleMgr\<close>

text \<open>The message literal of the \<^verbatim>\<open>log.Info\<close> call in the source, as its UTF-8 bytes.\<close>

definition msg_register :: string where
  "msg_register =
     [CHR 0xE6, CHR 0xB3, CHR 0xA8, CHR 0xE5, CHR 0x86, CHR 0x8C,
      CHR 0xE6, CHR 0xA8, CHR 0xA1, CHR 0xE5, CHR 0x9D, CHR 0x97]"

text \<open>
  One iteration of the loop over \<^verbatim>\<open>moduleInstance\<close>: the argument of \<^verbatim>\<open>log.Info\<close>
  is evaluated first (a call of \<^verbatim>\<open>Name()\<close>), \<^verbatim>\<open>log.Info\<close> is called, and the map
  entry for a second call of \<^verbatim>\<open>Name()\<close> is overwritten with the pointer.
\<close>

definition CreateModuleMgr_body ::
  "addr \<Rightarrow> moduleMgr \<times> 'w world \<Rightarrow> moduleMgr \<times> 'w world" where
  "CreateModuleMgr_body p ms =
     (let (n1, s1) = call_Name p (snd ms);
          s2 = s1\<lparr>env := Info msg_register [String ''moduleName'' n1] (env s1)\<rparr>;
          (n2, s3) = call_Name p s2
      in ((fst ms)\<lparr>modules := (modules (fst ms))(n2 \<mapsto> p)\<rparr>, s3))"

definition CreateModuleMgr :: "'w world \<Rightarrow> moduleMgr \<times> 'w world" where
  "CreateModuleMgr s =
     fold CreateModuleMgr_body (moduleInstance s) (\<lparr>modules = Map.empty\<rparr>, s)"

subsection \<open>The methods of moduleMgr\<close>

text \<open>
  \<^verbatim>\<open>Init\<close> ranges twice over the package-level slice, not over the map of its
  receiver; a \<^verbatim>\<open>range\<close> evaluates the slice once, before the first iteration. The
  value each call returns is dropped (\<open>snd\<close> keeps the state only), as the call is
  an expression statement in the source.
\<close>

definition moduleMgr_Init :: "moduleMgr \<Rightarrow> 'w world \<Rightarrow> 'w world" where
  "moduleMgr_Init m s =
     (let s1 = fold (\<lambda>p t. snd (call_Init p t)) (moduleInstance s) s
      in fold (\<lambda>p t. snd (call_LoadCfg p False t)) (moduleInstance s1) s1)"

text \<open>
  A \<^verbatim>\<open>range\<close> over a Go map visits every entry once, in an order the language
  leaves open. The order the runtime picks is the argument \<open>ks\<close> of \<^verbatim>\<open>Start\<close> and
  \<^verbatim>\<open>Stop\<close>: a list of the keys of the map without repetition (\<open>range_order\<close>). The
  loop variable of the source is the value stored under the key; for a key of the
  map the lookup in the loop body finds it.
\<close>

definition range_order :: "('k \<rightharpoonup> 'v) \<Rightarrow> 'k list \<Rightarrow> bool" where
  "range_order mp ks \<longleftrightarrow> distinct ks \<and> set ks = dom mp"

definition moduleMgr_Start_body :: "moduleMgr \<Rightarrow> string \<Rightarrow> 'w world \<Rightarrow> 'w world" where
  "moduleMgr_Start_body m k s =
     (case modules m k of
        None \<Rightarrow> s
      | Some p \<Rightarrow> if isDisabled (store s p) then s else snd (call_Start p s))"

definition moduleMgr_Start :: "string list \<Rightarrow> moduleMgr \<Rightarrow> 'w world \<Rightarrow> 'w world" where
  "moduleMgr_Start ks m s = fold (moduleMgr_Start_body m) ks s"

definition moduleMgr_Stop_body :: "moduleMgr \<Rightarrow> string \<Rightarrow> 'w world \<Rightarrow> 'w world" where
  "moduleMgr_Stop_body m k s =
     (case modules m k of
        None \<Rightarrow> s
      | Some p \<Rightarrow> snd (call_Stop p s))"

definition moduleMgr_Stop :: "string list \<Rightarrow> moduleMgr \<Rightarrow> 'w world \<Rightarrow> 'w world" where
  "moduleMgr_Stop ks m s = fold (moduleMgr_Stop_body m) ks s"

subsection \<open>The shipped module ModelDemo\<close>

text \<open>
  The four message literals of \<^verbatim>\<open>model_demo.go\<close> after \<^verbatim>\<open>m.Name()\<close>, as their UTF-8
  bytes (a space and the Chinese words for the initialisation, the start, the stop
  and the configuration loading of the module).
\<close>

definition msg_Init :: string where
  "msg_Init =
     [CHR 0x20, CHR 0xE6, CHR 0xA8, CHR 0xA1, CHR 0xE5, CHR 0x9D, CHR 0x97, CHR 0xE5,
      CHR 0x88, CHR 0x9D, CHR 0xE5, CHR 0xA7, CHR 0x8B, CHR 0xE5, CHR 0x8C, CHR 0x96]"

definition msg_Start :: string where
  "msg_Start =
     [CHR 0x20, CHR 0xE6, CHR 0xA8, CHR 0xA1, CHR 0xE5, CHR 0x9D, CHR 0x97, CHR 0xE5,
      CHR 0x90, CHR 0xAF, CHR 0xE5, CHR 0x8A, CHR 0xA8]"

definition msg_Stop :: string where
  "msg_Stop =
     [CHR 0x20, CHR 0xE6, CHR 0xA8, CHR 0xA1, CHR 0xE5, CHR 0x9D, CHR 0x97, CHR 0xE5,
      CHR 0x81, CHR 0x9C, CHR 0xE6, CHR 0xAD, CHR 0xA2]"

definition msg_LoadCfg :: string where
  "msg_LoadCfg =
     [CHR 0x20, CHR 0xE6, CHR 0xA8, CHR 0xA1, CHR 0xE5, CHR 0x9D, CHR 0x97, CHR 0xE5,
      CHR 0x8A, CHR 0xA0, CHR 0xE8, CHR 0xBD, CHR 0xBD, CHR 0xE9, CHR 0x85, CHR 0x8D,
      CHR 0xE7, CHR 0xBD, CHR 0xAE]"

text \<open>
  \<^verbatim>\<open>ModelDemo\<close> has no fields; each lifecycle method logs one info line without
  fields and returns nil.
\<close>

definition ModelDemo :: "'w Module" where
  "ModelDemo =
     \<lparr>Name = ''demo'',
      Init = (\<lambda>e. (None, Info (''demo'' @ msg_Init) [] e)),
      Start = (\<lambda>e. (None, Info (''demo'' @ msg_Start) [] e)),
      Stop = (\<lambda>e. (None, Info (''demo'' @ msg_Stop) [] e)),
      LoadCfg = (\<lambda>isReload e. (None, Info (''demo'' @ msg_LoadCfg) [] e))\<rparr>"

section \<open>Vocabulary of the properties\<close>

text \<open>
  The interface calls made between a state \<open>s\<close> and a later state \<open>t\<close>: what \<open>t\<close>
  has appended to the history of \<open>s\<close>.
\<close>

definition invoked :: "'w world \<Rightarrow> 'w world \<Rightarrow> call list" where
  "invoked s t = drop (length (calls s)) (calls t)"

text \<open>
  What one iteration of the loop of \<^verbatim>\<open>Start\<close>, and of \<^verbatim>\<open>Stop\<close>, appends to the
  history.
\<close>

definition Start_trace :: "moduleMgr \<Rightarrow> (addr \<Rightarrow> 'w moduleInfo) \<Rightarrow> string \<Rightarrow> call list" where
  "Start_trace m st k =
     (case modules m k of None \<Rightarrow> [] | Some p \<Rightarrow> if isDisabled (st p) then [] else [CStart p])"

definition Stop_trace :: "moduleMgr \<Rightarrow> string \<Rightarrow> call list" where
  "Stop_trace m k = (case modules m k of None \<Rightarrow> [] | Some p \<Rightarrow> [CStop p])"


text \<open>
  \<open>silenced s\<close> is the state \<open>s\<close> in which every lifecycle method acts on the
  environment as before but returns nil where it returned an error.
\<close>

definition mute :: "('e \<Rightarrow> error option \<times> 'e) \<Rightarrow> 'e \<Rightarrow> error option \<times> 'e" where
  "mute f e = (None, snd (f e))"

definition mute_Module :: "'w Module \<Rightarrow> 'w Module" where
  "mute_Module md =
     md\<lparr>Init := mute (Init md), Start := mute (Start md), Stop := mute (Stop md),
        LoadCfg := (\<lambda>b. mute (LoadCfg md b))\<rparr>"

definition silenced :: "'w world \<Rightarrow> 'w world" where
  "silenced s = s\<lparr>store := (\<lambda>p. (store s p)\<lparr>Module := mute_Module (Module (store s p))\<rparr>)\<rparr>"


text \<open>
  \<open>reweigh f s\<close> is the state \<open>s\<close> with the weight of the record at every address \<open>p\<close>
  replaced by \<open>f p\<close>: the states that differ from \<open>s\<close> in the weights only are the
  states \<open>reweigh f s\<close>.
\<close>

definition reweigh :: "(addr \<Rightarrow> int) \<Rightarrow> 'w world \<Rightarrow> 'w world" where
  "reweigh f s = s\<lparr>store := (\<lambda>p. (store s p)\<lparr>weight := f p\<rparr>)\<rparr>"

text \<open>Every record of the registry is in the state \<^verbatim>\<open>ModuleStateRegistered\<close>.\<close>

definition all_Registered :: "'w world \<Rightarrow> bool" where
  "all_Registered s \<longleftrightarrow> (\<forall>p\<in>set (moduleInstance s). state (store s p) = ModuleStateRegistered)"

section \<open>Example processes\<close>

text \<open>
  The state of the process before any \<^verbatim>\<open>init()\<close> function has run: the registry is
  the empty slice and no record has been allocated (\<open>unallocated\<close> fills the store).
\<close>

definition unallocated :: "'w moduleInfo" where
  "unallocated =
     \<lparr>Module = \<lparr>Name = [], Init = Pair None, Start = Pair None, Stop = Pair None,
                LoadCfg = (\<lambda>_. Pair None)\<rparr>,
      state = 0, isDisabled = False, weight = 0\<rparr>"

definition process_start :: "zapLogger option \<Rightarrow> 'w \<Rightarrow> 'w world" where
  "process_start lg w =
     \<lparr>store = (\<lambda>_. unallocated), next_addr = 0, moduleInstance = [], calls = [],
      env = \<lparr>logger = lg, handed = [], mstate = w\<rparr>\<rparr>"

text \<open>
  Two implementations of the interface that, like \<^verbatim>\<open>ModelDemo\<close>, log one line in each
  lifecycle method, and count the executed methods in the state of the modules: the
  methods of the first return nil, the methods of the second return an error.
\<close>

definition sound_module :: "string \<Rightarrow> nat Module" where
  "sound_module n =
     \<lparr>Name = n,
      Init = (\<lambda>e. (None, Info (n @ msg_Init) [] (e\<lparr>mstate := Suc (mstate e)\<rparr>))),
      Start = (\<lambda>e. (None, Info (n @ msg_Start) [] (e\<lparr>mstate := Suc (mstate e)\<rparr>))),
      Stop = (\<lambda>e. (None, Info (n @ msg_Stop) [] (e\<lparr>mstate := Suc (mstate e)\<rparr>))),
      LoadCfg = (\<lambda>_ e. (None, Info (n @ msg_LoadCfg) [] (e\<lparr>mstate := Suc (mstate e)\<rparr>)))\<rparr>"

definition failing_module :: "string \<Rightarrow> nat Module" where
  "failing_module n =
     \<lparr>Name = n,
      Init = (\<lambda>e. (Some (Error ''failed''),
                   Info (n @ msg_Init) [] (e\<lparr>mstate := Suc (mstate e)\<rparr>))),
      Start = (\<lambda>e. (Some (Error ''failed''),
                    Info (n @ msg_Start) [] (e\<lparr>mstate := Suc (mstate e)\<rparr>))),
      Stop = (\<lambda>e. (Some (Error ''failed''),
                   Info (n @ msg_Stop) [] (e\<lparr>mstate := Suc (mstate e)\<rparr>))),
      LoadCfg = (\<lambda>_ e. (Some (Error ''failed''),
                        Info (n @ msg_LoadCfg) [] (e\<lparr>mstate := Suc (mstate e)\<rparr>)))\<rparr>"

text \<open>Setting the unexported field \<^verbatim>\<open>isDisabled\<close> of a record, as code of the package can.\<close>

definition disable :: "addr \<Rightarrow> 'w world \<Rightarrow> 'w world" where
  "disable p s = s\<lparr>store := (store s)(p := (store s p)\<lparr>isDisabled := True\<rparr>)\<rparr>"

text \<open>Registries used as concrete inputs below; the global logger is set.\<close>

definition one_failing :: "nat world" where
  "one_failing = RegisterModule (failing_module ''a'') (process_start (Some ZapLogger) 0)"

definition one_sound :: "nat world" where
  "one_sound = RegisterModule (sound_module ''a'') (process_start (Some ZapLogger) 0)"

definition world_ab :: "nat world" where
  "world_ab =
     disable (Suc 0)
       (fold RegisterModule [failing_module ''a'', sound_module ''b'']
          (process_start (Some ZapLogger) 0))"

definition world_ab_enabled :: "nat world" where
  "world_ab_enabled =
     fold RegisterModule [failing_module ''a'', sound_module ''b''] (process_start (Some ZapLogger) 0)"

definition world_aa :: "nat world" where
  "world_aa =
     disable 0
       (fold RegisterModule [sound_module ''a'', sound_module ''a'']
          (process_start (Some ZapLogger) 0))"

definition world_aba :: "nat world" where
  "world_aba =
     fold RegisterModule [failing_module ''a'', sound_module ''b'', sound_module ''a'']
       (process_start (Some ZapLogger) 0)"

definition world_aba_off :: "nat world" where
  "world_aba_off = disable 0 (disable (Suc 0) world_aba)"

definition world_abac :: "nat world" where
  "world_abac =
     fold RegisterModule
       [failing_module ''a'', sound_module ''b'', sound_module ''a'', sound_module ''c'']
       (process_start (Some ZapLogger) 0)"

text \<open>The process as shipped: \<^verbatim>\<open>ModelDemo\<close> is the one module that registers itself.\<close>

definition demo_process :: "unit world" where
  "demo_process = RegisterModule ModelDemo (process_start (Some ZapLogger) ())"

definition empty_process :: "nat world" where
  "empty_process = process_start (Some ZapLogger) 0"

section \<open>Frame and history lemmas\<close>

text \<open>The definitions that a run on a concrete registry unfolds.\<close>

lemmas ex_defs = one_failing_def one_sound_def world_ab_def world_ab_enabled_def world_aa_def
  world_aba_off_def world_aba_def world_abac_def
  process_start_def unallocated_def sound_module_def failing_module_def disable_def
  RegisterModule_def CreateModuleMgr_def CreateModuleMgr_body_def call_Name_def call_Init_def
  call_LoadCfg_def call_Start_def call_Stop_def Info_def moduleMgr_Init_def moduleMgr_Start_def
  moduleMgr_Stop_def moduleMgr_Start_body_def moduleMgr_Stop_body_def Let_def

lemma call_Name_frame [simp]:
  "store (snd (call_Name p s)) = store s"
  "next_addr (snd (call_Name p s)) = next_addr s"
  "moduleInstance (snd (call_Name p s)) = moduleInstance s"
  "env (snd (call_Name p s)) = env s"
  "calls (snd (call_Name p s)) = calls s @ [CName p]"
  "fst (call_Name p s) = Name (Module (store s p))"
  by (simp_all add: call_Name_def)

lemma call_Init_frame [simp]:
  "store (snd (call_Init p s)) = store s"
  "next_addr (snd (call_Init p s)) = next_addr s"
  "moduleInstance (snd (call_Init p s)) = moduleInstance s"
  "calls (snd (call_Init p s)) = calls s @ [CInit p]"
  "env (snd (call_Init p s)) = snd (Init (Module (store s p)) (env s))"
  by (simp_all add: call_Init_def split: prod.split)

lemma call_LoadCfg_frame [simp]:
  "store (snd (call_LoadCfg p b s)) = store s"
  "next_addr (snd (call_LoadCfg p b s)) = next_addr s"
  "moduleInstance (snd (call_LoadCfg p b s)) = moduleInstance s"
  "calls (snd (call_LoadCfg p b s)) = calls s @ [CLoadCfg p b]"
  "env (snd (call_LoadCfg p b s)) = snd (LoadCfg (Module (store s p)) b (env s))"
  by (simp_all add: call_LoadCfg_def split: prod.split)

lemma call_Start_frame [simp]:
  "store (snd (call_Start p s)) = store s"
  "next_addr (snd (call_Start p s)) = next_addr s"
  "moduleInstance (snd (call_Start p s)) = moduleInstance s"
  "calls (snd (call_Start p s)) = calls s @ [CStart p]"
  "env (snd (call_Start p s)) = snd (Start (Module (store s p)) (env s))"
  by (simp_all add: call_Start_def split: prod.split)

lemma call_Stop_frame [simp]:
  "store (snd (call_Stop p s)) = store s"
  "next_addr (snd (call_Stop p s)) = next_addr s"
  "moduleInstance (snd (call_Stop p s)) = moduleInstance s"
  "calls (snd (call_Stop p s)) = calls s @ [CStop p]"
  "env (snd (call_Stop p s)) = snd (Stop (Module (store s p)) (env s))"
  by (simp_all add: call_Stop_def split: prod.split)

lemma Info_frame [simp]:
  "logger (Info msg fs e) = logger e"
  "mstate (Info msg fs e) = mstate e"
  by (simp_all add: Info_def split: option.split)


text \<open>A loop whose body leaves a component alone leaves it alone.\<close>

lemma fold_keeps:
  assumes "\<And>x t. f (g x t) = f t"
  shows "f (fold g xs s) = f s"
  using assms by (induction xs arbitrary: s) simp_all

text \<open>
  A loop whose body appends to a component what a fixed part of the state and the
  loop variable determine appends the concatenation of these, in the order of the loop.
\<close>

lemma fold_appends:
  assumes st: "\<And>x t. st (g x t) = st t"
    and ap: "\<And>x t. c (g x t) = c t @ h (st t) x"
  shows "c (fold g xs s) = c s @ concat (map (h (st s)) xs)"
proof (induction xs arbitrary: s)
  case Nil
  show ?case by simp
next
  case (Cons x xs)
  have "c (fold g (x # xs) s) = c (g x s) @ concat (map (h (st (g x s))) xs)"
    using Cons.IH [of "g x s"] by simp
  then show ?case by (simp add: st ap)
qed

text \<open>A change of the state that every iteration commutes with commutes with the loop.\<close>

lemma fold_commute:
  assumes "\<And>x t. g x (F t) = F (g x t)"
  shows "fold g xs (F s) = F (fold g xs s)"
  using assms by (induction xs arbitrary: s) simp_all

text \<open>
  A loop whose body changes a component by a function of the loop variable and a
  fixed part of the state folds that function over the component.
\<close>

lemma fold_project:
  assumes st: "\<And>x t. st (g x t) = st t"
    and ch: "\<And>x t. c (g x t) = h (st t) x (c t)"
  shows "c (fold g xs s) = fold (h (st s)) xs (c s)"
proof (induction xs arbitrary: s)
  case Nil
  show ?case by simp
next
  case (Cons x xs)
  have "c (fold g (x # xs) s) = fold (h (st (g x s))) xs (c (g x s))"
    using Cons.IH [of "g x s"] by simp
  then show ?case by (simp add: st ch)
qed


lemma map_singleton_concat: "concat (map (\<lambda>p. [f p]) xs) = map f xs"
  by (induction xs) simp_all






lemma invoked_append [simp]: "calls t = calls s @ es \<Longrightarrow> invoked s t = es"
  by (simp add: invoked_def)

lemma Start_body_frame [simp]:
  "store (moduleMgr_Start_body m k s) = store s"
  "next_addr (moduleMgr_Start_body m k s) = next_addr s"
  "moduleInstance (moduleMgr_Start_body m k s) = moduleInstance s"
  "calls (moduleMgr_Start_body m k s) = calls s @ Start_trace m (store s) k"
  "env (moduleMgr_Start_body m k s) =
     (case modules m k of
        None \<Rightarrow> env s
      | Some p \<Rightarrow> if isDisabled (store s p) then env s
                  else snd (Start (Module (store s p)) (env s)))"
  by (simp_all add: moduleMgr_Start_body_def Start_trace_def split: option.split)

lemma Stop_body_frame [simp]:
  "store (moduleMgr_Stop_body m k s) = store s"
  "next_addr (moduleMgr_Stop_body m k s) = next_addr s"
  "moduleInstance (moduleMgr_Stop_body m k s) = moduleInstance s"
  "calls (moduleMgr_Stop_body m k s) = calls s @ Stop_trace m k"
  "env (moduleMgr_Stop_body m k s) =
     (case modules m k of
        None \<Rightarrow> env s
      | Some p \<Rightarrow> snd (Stop (Module (store s p)) (env s)))"
  by (simp_all add: moduleMgr_Stop_body_def Stop_trace_def split: option.split)

lemma Init_frame:
  "store (moduleMgr_Init m s) = store s"
  "next_addr (moduleMgr_Init m s) = next_addr s"
  "moduleInstance (moduleMgr_Init m s) = moduleInstance s"
  by (simp_all add: moduleMgr_Init_def Let_def fold_keeps)


lemma Init_env:
  "env (moduleMgr_Init m s) =
     fold (\<lambda>p e. snd (LoadCfg (Module (store s p)) False e)) (moduleInstance s)
       (fold (\<lambda>p e. snd (Init (Module (store s p)) e)) (moduleInstance s) (env s))"
proof -
  let ?s1 = "fold (\<lambda>p t. snd (call_Init p t)) (moduleInstance s) s"
  have a: "env ?s1 = fold (\<lambda>p e. snd (Init (Module (store s p)) e)) (moduleInstance s) (env s)"
    by (rule fold_project [where st = store and c = env
          and h = "\<lambda>st p e. snd (Init (Module (st p)) e)"]) simp_all
  have b: "moduleInstance ?s1 = moduleInstance s" "store ?s1 = store s"
    by (simp_all add: fold_keeps)
  have c: "env (fold (\<lambda>p t. snd (call_LoadCfg p False t)) (moduleInstance s) ?s1) =
      fold (\<lambda>p e. snd (LoadCfg (Module (store ?s1 p)) False e)) (moduleInstance s) (env ?s1)"
    by (rule fold_project [where st = store and c = env
          and h = "\<lambda>st p e. snd (LoadCfg (Module (st p)) False e)"]) simp_all
  show ?thesis
    by (simp add: moduleMgr_Init_def Let_def b c a)
qed

lemma Start_frame:
  "store (moduleMgr_Start ks m s) = store s"
  "next_addr (moduleMgr_Start ks m s) = next_addr s"
  "moduleInstance (moduleMgr_Start ks m s) = moduleInstance s"
  by (simp_all add: moduleMgr_Start_def fold_keeps)

lemma Start_calls:
  "calls (moduleMgr_Start ks m s) = calls s @ concat (map (Start_trace m (store s)) ks)"
  unfolding moduleMgr_Start_def
  by (rule fold_appends [where st = store and c = calls and h = "Start_trace m"]) simp_all

lemma Start_env:
  "env (moduleMgr_Start ks m s) =
     fold (\<lambda>k e. case modules m k of
                    None \<Rightarrow> e
                  | Some p \<Rightarrow> if isDisabled (store s p) then e
                              else snd (Start (Module (store s p)) e)) ks (env s)"
  unfolding moduleMgr_Start_def
  by (rule fold_project [where st = store and c = env
        and h = "\<lambda>st k e. case modules m k of
                    None \<Rightarrow> e
                  | Some p \<Rightarrow> if isDisabled (st p) then e
                              else snd (Start (Module (st p)) e)"])
    (simp_all split: option.split)

lemma Stop_frame:
  "store (moduleMgr_Stop ks m s) = store s"
  "next_addr (moduleMgr_Stop ks m s) = next_addr s"
  "moduleInstance (moduleMgr_Stop ks m s) = moduleInstance s"
  by (simp_all add: moduleMgr_Stop_def fold_keeps)


lemma Stop_env:
  "env (moduleMgr_Stop ks m s) =
     fold (\<lambda>k e. case modules m k of
                    None \<Rightarrow> e
                  | Some p \<Rightarrow> snd (Stop (Module (store s p)) e)) ks (env s)"
  unfolding moduleMgr_Stop_def
  by (rule fold_project [where st = store and c = env
        and h = "\<lambda>st k e. case modules m k of
                    None \<Rightarrow> e
                  | Some p \<Rightarrow> snd (Stop (Module (st p)) e)"])
    (simp_all split: option.split)

lemma CStart_in_Start_trace:
  "CStart p \<in> set (Start_trace m st k) \<longleftrightarrow> modules m k = Some p \<and> \<not> isDisabled (st p)"
  by (cases "modules m k") (auto simp: Start_trace_def)


lemma silenced_call_Init: "snd (call_Init p (silenced s)) = silenced (snd (call_Init p s))"
  by (simp add: call_Init_def silenced_def mute_Module_def mute_def split: prod.split)

lemma silenced_call_LoadCfg:
  "snd (call_LoadCfg p b (silenced s)) = silenced (snd (call_LoadCfg p b s))"
  by (simp add: call_LoadCfg_def silenced_def mute_Module_def mute_def split: prod.split)

lemma silenced_call_Start: "snd (call_Start p (silenced s)) = silenced (snd (call_Start p s))"
  by (simp add: call_Start_def silenced_def mute_Module_def mute_def split: prod.split)

lemma silenced_call_Stop: "snd (call_Stop p (silenced s)) = silenced (snd (call_Stop p s))"
  by (simp add: call_Stop_def silenced_def mute_Module_def mute_def split: prod.split)

lemma silenced_proj [simp]:
  "moduleInstance (silenced s) = moduleInstance s"
  "calls (silenced s) = calls s"
  "env (silenced s) = env s"
  "isDisabled (store (silenced s) p) = isDisabled (store s p)"
  by (simp_all add: silenced_def)

lemma silenced_Init:
  fixes s :: "'w world"
  shows "moduleMgr_Init m (silenced s) = silenced (moduleMgr_Init m s)"
proof -
  have a: "fold (\<lambda>p t. snd (call_Init p t)) xs (silenced s) =
      silenced (fold (\<lambda>p t. snd (call_Init p t)) xs s)" for xs
    by (rule fold_commute) (rule silenced_call_Init)
  have b: "fold (\<lambda>p t. snd (call_LoadCfg p False t)) xs (silenced t) =
      silenced (fold (\<lambda>p t. snd (call_LoadCfg p False t)) xs t)"
    for xs and t :: "'w world"
    by (rule fold_commute) (rule silenced_call_LoadCfg)
  show ?thesis
    by (simp add: moduleMgr_Init_def Let_def a b)
qed

lemma silenced_Start_body:
  "moduleMgr_Start_body m k (silenced s) = silenced (moduleMgr_Start_body m k s)"
  by (cases "modules m k") (simp_all add: moduleMgr_Start_body_def silenced_call_Start)

lemma silenced_Start: "moduleMgr_Start ks m (silenced s) = silenced (moduleMgr_Start ks m s)"
  unfolding moduleMgr_Start_def by (rule fold_commute) (rule silenced_Start_body)

lemma silenced_Stop_body:
  "moduleMgr_Stop_body m k (silenced s) = silenced (moduleMgr_Stop_body m k s)"
  by (cases "modules m k") (simp_all add: moduleMgr_Stop_body_def silenced_call_Stop)

lemma silenced_Stop: "moduleMgr_Stop ks m (silenced s) = silenced (moduleMgr_Stop ks m s)"
  unfolding moduleMgr_Stop_def by (rule fold_commute) (rule silenced_Stop_body)

lemma reweigh_proj [simp]:
  "moduleInstance (reweigh f s) = moduleInstance s"
  "calls (reweigh f s) = calls s"
  "env (reweigh f s) = env s"
  "isDisabled (store (reweigh f s) p) = isDisabled (store s p)"
  "Module (store (reweigh f s) p) = Module (store s p)"
  "state (store (reweigh f s) p) = state (store s p)"
  "weight (store (reweigh f s) p) = f p"
  by (simp_all add: reweigh_def)

lemma reweigh_call_Start: "snd (call_Start p (reweigh f s)) = reweigh f (snd (call_Start p s))"
  by (simp add: call_Start_def reweigh_def split: prod.split)

lemma reweigh_Start_body:
  "moduleMgr_Start_body m k (reweigh f s) = reweigh f (moduleMgr_Start_body m k s)"
  by (cases "modules m k") (simp_all add: moduleMgr_Start_body_def reweigh_call_Start)

lemma reweigh_Start: "moduleMgr_Start ks m (reweigh f s) = reweigh f (moduleMgr_Start ks m s)"
  unfolding moduleMgr_Start_def by (rule fold_commute) (rule reweigh_Start_body)

lemma Create_body_frame [simp]:
  "store (snd (CreateModuleMgr_body p ms)) = store (snd ms)"
  "next_addr (snd (CreateModuleMgr_body p ms)) = next_addr (snd ms)"
  "moduleInstance (snd (CreateModuleMgr_body p ms)) = moduleInstance (snd ms)"
  "env (snd (CreateModuleMgr_body p ms)) =
     Info msg_register [String ''moduleName'' (Name (Module (store (snd ms) p)))] (env (snd ms))"
  "calls (snd (CreateModuleMgr_body p ms)) = calls (snd ms) @ [CName p, CName p]"
  "modules (fst (CreateModuleMgr_body p ms)) =
     (modules (fst ms))(Name (Module (store (snd ms) p)) \<mapsto> p)"
  by (simp_all add: CreateModuleMgr_body_def call_Name_def Let_def split: prod.split)

lemma Create_frame:
  "store (snd (CreateModuleMgr s)) = store s"
  "next_addr (snd (CreateModuleMgr s)) = next_addr s"
  "moduleInstance (snd (CreateModuleMgr s)) = moduleInstance s"
  unfolding CreateModuleMgr_def
  by (simp_all add: fold_keeps [where f = "\<lambda>ms. store (snd ms)"]
      fold_keeps [where f = "\<lambda>ms. next_addr (snd ms)"]
      fold_keeps [where f = "\<lambda>ms. moduleInstance (snd ms)"])







lemma all_Registered_RegisterModule:
  "all_Registered s \<Longrightarrow> all_Registered (RegisterModule md s)"
  by (auto simp: all_Registered_def RegisterModule_def Let_def)

lemma all_Registered_fold:
  "all_Registered s \<Longrightarrow> all_Registered (fold RegisterModule mds s)"
  by (induction mds arbitrary: s) (simp_all add: all_Registered_RegisterModule)

lemma all_Registered_cong:
  "store t = store s \<Longrightarrow> moduleInstance t = moduleInstance s \<Longrightarrow>
   all_Registered t = all_Registered s"
  by (simp add: all_Registered_def)


text \<open>
  The shipped process, run as \<^verbatim>\<open>main\<close> runs it: the log receives the line of
  \<^verbatim>\<open>CreateModuleMgr\<close> and then the lines the four lifecycle methods of \<^verbatim>\<open>ModelDemo\<close>
  log themselves.
\<close>

lemma demo_process_log:
  "handed (env (moduleMgr_Stop [''demo''] (fst (CreateModuleMgr demo_process))
     (moduleMgr_Start [''demo''] (fst (CreateModuleMgr demo_process))
       (moduleMgr_Init (fst (CreateModuleMgr demo_process))
          (snd (CreateModuleMgr demo_process)))))) =
     [Entry InfoLevel msg_register [String ''moduleName'' ''demo''],
      Entry InfoLevel (''demo'' @ msg_Init) [],
      Entry InfoLevel (''demo'' @ msg_LoadCfg) [],
      Entry InfoLevel (''demo'' @ msg_Start) [],
      Entry InfoLevel (''demo'' @ msg_Stop) []]"
  by (simp add: demo_process_def ModelDemo_def ex_defs)

section \<open>The claims\<close>

subsection \<open>C1: what happens to an error a lifecycle call returns\<close>

text \<open>
  Claim C1 says that an error returned by a module's \<^verbatim>\<open>Init\<close>, \<^verbatim>\<open>Start\<close>, \<^verbatim>\<open>Stop\<close>
  or \<^verbatim>\<open>LoadCfg\<close> during a phase is surfaced to the caller of the phase and logged.
  It fails on the registry holding the one module \<open>failing_module ''a''\<close>, with the
  global logger set: the \<^verbatim>\<open>Init\<close> call of the record returns the error
  \<open>Error ''failed''\<close>, yet after \<^verbatim>\<open>moduleMgr.Init\<close> the entries handed to the logger
  are the line of \<^verbatim>\<open>CreateModuleMgr\<close> and the two lines the module's own \<^verbatim>\<open>Init\<close>
  and \<^verbatim>\<open>LoadCfg\<close> logged, none of them about the error, and the environment and the
  history of calls are those of the run in which the module returns nil
  (\<open>sound_module ''a''\<close>): nothing the caller can look at tells the two runs apart.
\<close>

theorem lifecycle_errors_surfaced_counterexample:
  "fst (call_Init 0 (snd (CreateModuleMgr one_failing))) = Some (Error ''failed'') \<and>
   fst (call_LoadCfg 0 False (snd (CreateModuleMgr one_failing))) = Some (Error ''failed'') \<and>
   handed (env (snd (CreateModuleMgr one_failing))) =
     [Entry InfoLevel msg_register [String ''moduleName'' ''a'']] \<and>
   handed (env (moduleMgr_Init (fst (CreateModuleMgr one_failing))
                  (snd (CreateModuleMgr one_failing)))) =
     [Entry InfoLevel msg_register [String ''moduleName'' ''a''],
      Entry InfoLevel (''a'' @ msg_Init) [],
      Entry InfoLevel (''a'' @ msg_LoadCfg) []] \<and>
   env (moduleMgr_Init (fst (CreateModuleMgr one_failing)) (snd (CreateModuleMgr one_failing))) =
     env (moduleMgr_Init (fst (CreateModuleMgr one_sound)) (snd (CreateModuleMgr one_sound))) \<and>
   calls (moduleMgr_Init (fst (CreateModuleMgr one_failing)) (snd (CreateModuleMgr one_failing))) =
     calls (moduleMgr_Init (fst (CreateModuleMgr one_sound)) (snd (CreateModuleMgr one_sound)))"
  by (simp add: ex_defs)

text \<open>
  Claim C1, amended: an error returned by a module's \<^verbatim>\<open>Init\<close>, \<^verbatim>\<open>LoadCfg\<close>,
  \<^verbatim>\<open>Start\<close> or \<^verbatim>\<open>Stop\<close> during a phase is discarded. The three phase operations
  return no value and log nothing themselves: the environment after a phase, the
  log included, is what the lifecycle methods the phase calls, applied in the order
  of the calls, make of the environment before it. The state a phase ends in is the
  state it would end in had every lifecycle method returned nil.
\<close>

theorem lifecycle_errors_discarded:
  "env (moduleMgr_Init m s) =
     fold (\<lambda>p e. snd (LoadCfg (Module (store s p)) False e)) (moduleInstance s)
       (fold (\<lambda>p e. snd (Init (Module (store s p)) e)) (moduleInstance s) (env s)) \<and>
   env (moduleMgr_Start ks m s) =
     fold (\<lambda>k e. case modules m k of
                    None \<Rightarrow> e
                  | Some p \<Rightarrow> if isDisabled (store s p) then e
                              else snd (Start (Module (store s p)) e)) ks (env s) \<and>
   env (moduleMgr_Stop ks m s) =
     fold (\<lambda>k e. case modules m k of
                    None \<Rightarrow> e
                  | Some p \<Rightarrow> snd (Stop (Module (store s p)) e)) ks (env s) \<and>
   moduleMgr_Init m (silenced s) = silenced (moduleMgr_Init m s) \<and>
   moduleMgr_Start ks m (silenced s) = silenced (moduleMgr_Start ks m s) \<and>
   moduleMgr_Stop ks m (silenced s) = silenced (moduleMgr_Stop ks m s)"
  by (simp only: Init_env Start_env Stop_env silenced_Init silenced_Start silenced_Stop simp_thms)

subsection \<open>C2: the two passes of Init\<close>


subsection \<open>C3: what CreateModuleMgr invokes\<close>


subsection \<open>C4: disabled records\<close>




subsection \<open>C5: two registrations under one name\<close>



subsection \<open>C6: an error does not stop the fan-out\<close>



subsection \<open>C7: the weight is not consulted\<close>

text \<open>
  Claim C7: for two states that differ in the weights of their records only,
  \<^verbatim>\<open>Start\<close> invokes \<^verbatim>\<open>Start()\<close> on the same set of records, whatever the two orders
  in which the map is ranged over; for one and the same order, the two runs end in
  states that again differ in the weights only.
\<close>

theorem Start_ignores_weight:
  assumes "range_order (modules m) ks" and "range_order (modules m) ks'"
  shows "{p. CStart p \<in> set (invoked (reweigh f s) (moduleMgr_Start ks' m (reweigh f s)))} =
           {p. CStart p \<in> set (invoked s (moduleMgr_Start ks m s))} \<and>
         moduleMgr_Start ks m (reweigh f s) = reweigh f (moduleMgr_Start ks m s)"
proof -
  have "set ks' = set ks"
    using assms by (simp add: range_order_def)
  then have "{p. CStart p \<in> set (invoked (reweigh f s) (moduleMgr_Start ks' m (reweigh f s)))} =
      {p. CStart p \<in> set (invoked s (moduleMgr_Start ks m s))}"
    by (simp add: Start_calls CStart_in_Start_trace)
  then show ?thesis
    by (simp add: reweigh_Start)
qed

text \<open>The theorem at a concrete registry.\<close>

theorem Start_ignores_weight_witness:
  "range_order (modules (fst (CreateModuleMgr world_ab))) [''a'', ''b''] \<and>
   range_order (modules (fst (CreateModuleMgr world_ab))) [''b'', ''a''] \<and>
   weight (store (reweigh (\<lambda>p. 7 - int p) world_ab) 0) = 7 \<and>
   weight (store (reweigh (\<lambda>p. 7 - int p) world_ab) (Suc 0)) = 6 \<and>
   weight (store world_ab 0) = 0 \<and> weight (store world_ab (Suc 0)) = 0 \<and>
   {p. CStart p \<in> set (invoked (reweigh (\<lambda>p. 7 - int p) world_ab)
         (moduleMgr_Start [''b'', ''a''] (fst (CreateModuleMgr world_ab))
            (reweigh (\<lambda>p. 7 - int p) world_ab)))} = {0} \<and>
   {p. CStart p \<in> set (invoked world_ab
         (moduleMgr_Start [''a'', ''b''] (fst (CreateModuleMgr world_ab)) world_ab))} = {0}"
proof -
  have h1: "range_order (modules (fst (CreateModuleMgr world_ab))) [''a'', ''b'']"
    by (auto simp: ex_defs range_order_def)
  have h2: "range_order (modules (fst (CreateModuleMgr world_ab))) [''b'', ''a'']"
    by (auto simp: ex_defs range_order_def)
  have w: "weight (store world_ab 0) = 0 \<and> weight (store world_ab (Suc 0)) = 0"
    by (simp add: ex_defs)
  have e: "{p. CStart p \<in> set (invoked world_ab
         (moduleMgr_Start [''a'', ''b''] (fst (CreateModuleMgr world_ab)) world_ab))} = {0}"
    by (simp add: ex_defs invoked_def)
  from Start_ignores_weight [OF h1 h2, of "\<lambda>p. 7 - int p" world_ab]
  show ?thesis using h1 h2 w e by simp
qed

subsection \<open>C8: the state field\<close>

text \<open>
  Claim C8: \<^verbatim>\<open>RegisterModule\<close> sets the state of the record it allocates to
  \<^verbatim>\<open>ModuleStateRegistered\<close>, and no later operation writes it: after any sequence of
  registrations from the empty registry, and after \<^verbatim>\<open>CreateModuleMgr\<close>, \<^verbatim>\<open>Init\<close>,
  \<^verbatim>\<open>Start\<close> and \<^verbatim>\<open>Stop\<close> in turn, every record of the registry is in the state
  \<^verbatim>\<open>ModuleStateRegistered\<close> and in none of the four other declared states; each of
  the four operations leaves the store of any state \<open>t\<close> as it was.
\<close>

theorem state_field_stays_Registered:
  fixes s0 t :: "'w world"
  assumes start: "moduleInstance s0 = []"
    and s: "s = fold RegisterModule mds s0"
    and s1: "s1 = snd (CreateModuleMgr s)"
    and s2: "s2 = moduleMgr_Init (fst (CreateModuleMgr s)) s1"
    and s3: "s3 = moduleMgr_Start ks (fst (CreateModuleMgr s)) s2"
    and s4: "s4 = moduleMgr_Stop ks' (fst (CreateModuleMgr s)) s3"
  shows "all_Registered s \<and> all_Registered s1 \<and> all_Registered s2 \<and>
         all_Registered s3 \<and> all_Registered s4 \<and>
         store s1 = store s \<and> store s2 = store s \<and> store s3 = store s \<and> store s4 = store s \<and>
         (\<forall>p\<in>set (moduleInstance s4).
            state (store s4 p) \<notin> {ModuleStateInitialized, ModuleStateCfgLoaded,
                                   ModuleStateStarted, ModuleStateStopped}) \<and>
         state (store (RegisterModule md t) (next_addr t)) = ModuleStateRegistered \<and>
         store (snd (CreateModuleMgr t)) = store t \<and>
         store (moduleMgr_Init m t) = store t \<and>
         store (moduleMgr_Start ks m t) = store t \<and>
         store (moduleMgr_Stop ks' m t) = store t"
proof -
  have "all_Registered s0"
    using start by (simp add: all_Registered_def)
  then have a: "all_Registered s"
    unfolding s by (rule all_Registered_fold)
  have st: "store s1 = store s" "store s2 = store s" "store s3 = store s" "store s4 = store s"
    by (simp_all add: s1 s2 s3 s4 Create_frame Init_frame Start_frame Stop_frame)
  have mi: "moduleInstance s1 = moduleInstance s" "moduleInstance s2 = moduleInstance s"
    "moduleInstance s3 = moduleInstance s" "moduleInstance s4 = moduleInstance s"
    by (simp_all add: s1 s2 s3 s4 Create_frame Init_frame Start_frame Stop_frame)
  have b: "all_Registered s1" "all_Registered s2" "all_Registered s3" "all_Registered s4"
    using a st mi by (simp_all add: all_Registered_def)
  have c: "\<forall>p\<in>set (moduleInstance s4).
      state (store s4 p) \<notin> {ModuleStateInitialized, ModuleStateCfgLoaded,
                             ModuleStateStarted, ModuleStateStopped}"
    using b(4)
    by (simp add: all_Registered_def ModuleStateRegistered_def ModuleStateInitialized_def
        ModuleStateCfgLoaded_def ModuleStateStarted_def ModuleStateStopped_def)
  have d: "state (store (RegisterModule md t) (next_addr t)) = ModuleStateRegistered"
    by (simp add: RegisterModule_def Let_def)
  show ?thesis
    using a b st c d by (simp add: Create_frame Init_frame Start_frame Stop_frame)
qed

text \<open>The theorem at a concrete registry.\<close>

theorem state_field_stays_Registered_witness:
  "moduleInstance (process_start (Some ZapLogger) (0::nat)) = [] \<and>
   moduleInstance (moduleMgr_Stop [''a'', ''b''] (fst (CreateModuleMgr world_aba))
     (moduleMgr_Start [''b'', ''a''] (fst (CreateModuleMgr world_aba))
       (moduleMgr_Init (fst (CreateModuleMgr world_aba)) (snd (CreateModuleMgr world_aba))))) =
     [0, Suc 0, Suc (Suc 0)] \<and>
   state (store (moduleMgr_Stop [''a'', ''b''] (fst (CreateModuleMgr world_aba))
     (moduleMgr_Start [''b'', ''a''] (fst (CreateModuleMgr world_aba))
       (moduleMgr_Init (fst (CreateModuleMgr world_aba)) (snd (CreateModuleMgr world_aba)))))
     0) = ModuleStateRegistered \<and>
   state (store (moduleMgr_Stop [''a'', ''b''] (fst (CreateModuleMgr world_aba))
     (moduleMgr_Start [''b'', ''a''] (fst (CreateModuleMgr world_aba))
       (moduleMgr_Init (fst (CreateModuleMgr world_aba)) (snd (CreateModuleMgr world_aba)))))
     (Suc 0)) = ModuleStateRegistered \<and>
   state (store (moduleMgr_Stop [''a'', ''b''] (fst (CreateModuleMgr world_aba))
     (moduleMgr_Start [''b'', ''a''] (fst (CreateModuleMgr world_aba))
       (moduleMgr_Init (fst (CreateModuleMgr world_aba)) (snd (CreateModuleMgr world_aba)))))
     (Suc (Suc 0))) = ModuleStateRegistered \<and>
   ModuleStateRegistered \<noteq> ModuleStateStopped"
proof -
  let ?m = "fst (CreateModuleMgr world_aba)"
  let ?s4 = "moduleMgr_Stop [''a'', ''b''] ?m (moduleMgr_Start [''b'', ''a''] ?m
    (moduleMgr_Init ?m (snd (CreateModuleMgr world_aba))))"
  have h: "moduleInstance (process_start (Some ZapLogger) (0::nat)) = []"
    by (simp add: process_start_def)
  have w: "world_aba =
      fold RegisterModule [failing_module ''a'', sound_module ''b'', sound_module ''a'']
        (process_start (Some ZapLogger) 0)"
    by (simp add: world_aba_def)
  have mi: "moduleInstance ?s4 = [0, Suc 0, Suc (Suc 0)]"
    by (simp add: Create_frame Init_frame Start_frame Stop_frame) (simp add: ex_defs)
  have "all_Registered ?s4"
    using state_field_stays_Registered [where ks = "[''b'', ''a'']" and ks' = "[''a'', ''b'']"
        and md = "sound_module ''c''" and t = world_aba and m = ?m, OF h w refl refl refl refl]
    by blast
  then have "state (store ?s4 0) = ModuleStateRegistered \<and>
      state (store ?s4 (Suc 0)) = ModuleStateRegistered \<and>
      state (store ?s4 (Suc (Suc 0))) = ModuleStateRegistered"
    using mi by (simp add: all_Registered_def)
  moreover have "ModuleStateRegistered \<noteq> ModuleStateStopped"
    by (simp add: ModuleStateRegistered_def ModuleStateStopped_def)
  ultimately show ?thesis using h mi by blast
qed

subsection \<open>C9: a shadowed registration\<close>



subsection \<open>C10: the empty registry\<close>

text \<open>
  Claim C10: with no module registered, \<^verbatim>\<open>CreateModuleMgr\<close> returns a manager with
  the empty map and changes nothing, and \<^verbatim>\<open>Init\<close>, \<^verbatim>\<open>Start\<close> and \<^verbatim>\<open>Stop\<close> of
  this manager return the state they were called in: no interface method is
  invoked, and the operations, which have no error result and are total, end
  normally. The only order in which the empty map can be ranged over is the empty
  one.
\<close>

theorem zero_modules_no_ops:
  assumes empty: "moduleInstance s = []"
    and ord: "range_order (modules (fst (CreateModuleMgr s))) ks"
    and ord': "range_order (modules (fst (CreateModuleMgr s))) ks'"
  shows "CreateModuleMgr s = (\<lparr>modules = Map.empty\<rparr>, s) \<and>
         moduleMgr_Init (fst (CreateModuleMgr s)) s = s \<and>
         moduleMgr_Start ks (fst (CreateModuleMgr s)) s = s \<and>
         moduleMgr_Stop ks' (fst (CreateModuleMgr s)) s = s \<and>
         ks = [] \<and> ks' = []"
proof -
  have c: "CreateModuleMgr s = (\<lparr>modules = Map.empty\<rparr>, s)"
    by (simp add: CreateModuleMgr_def empty)
  have k: "ks = []" "ks' = []"
    using ord ord' by (simp_all add: c range_order_def)
  show ?thesis
    by (simp add: c k moduleMgr_Init_def moduleMgr_Start_def moduleMgr_Stop_def empty)
qed

text \<open>The theorem at a concrete registry.\<close>

theorem zero_modules_no_ops_witness:
  "moduleInstance empty_process = [] \<and>
   range_order (modules (fst (CreateModuleMgr empty_process))) [] \<and>
   CreateModuleMgr empty_process = (\<lparr>modules = Map.empty\<rparr>, empty_process) \<and>
   moduleMgr_Init (fst (CreateModuleMgr empty_process)) empty_process = empty_process \<and>
   moduleMgr_Start [] (fst (CreateModuleMgr empty_process)) empty_process = empty_process \<and>
   moduleMgr_Stop [] (fst (CreateModuleMgr empty_process)) empty_process = empty_process"
proof -
  have h1: "moduleInstance empty_process = []"
    by (simp add: empty_process_def process_start_def)
  have h2: "range_order (modules (fst (CreateModuleMgr empty_process))) []"
    by (simp add: CreateModuleMgr_def h1 range_order_def)
  from zero_modules_no_ops [OF h1 h2 h2] h1 h2
  show ?thesis by blast
qed

end
